theory Spec2Isabelle
  imports Main
begin

section \<open>The header \<open>Sources/CDBus/include/cdbus.h\<close>\<close>

text \<open>
  The repository consists of one C header. It has no functions: what it does is decided by
  the C preprocessor, from the macros that are defined when the header is read. The
  embedding is therefore the header as a list of preprocessor lines, together with the part
  of the preprocessor those lines use: conditional sections (\<open>#ifndef\<close>, \<open>#if\<close>,
  \<open>#elif\<close>, \<open>#else\<close>, \<open>#endif\<close>), \<open>#define\<close>, \<open>#include\<close> and \<open>#error\<close>.
\<close>

subsection \<open>Preprocessor lines\<close>

type_synonym macro = string

text \<open>The two forms of \<open>#include\<close>: \<open>#include "path"\<close> and \<open>#include <path>\<close>.\<close>

datatype include_form = Quoted string | Angled string

text \<open>The only controlling expression the header uses is \<open>defined(NAME)\<close>.\<close>

datatype cond = Defined macro

datatype directive =
    Ifndef macro
  | Define macro
  | If cond
  | Elif cond
  | Else
  | Endif
  | Include include_form
  | Error string
  | Comment string
  | Blank

text \<open>
  The fifteen lines of the header, in order. \<open>#define CDBUS_H\<close> gives the macro an empty
  replacement; only whether a macro is defined matters here. The operand of \<open>#error\<close> is
  the string literal \<open>"Unsupported platform"\<close>, kept as its characters. The comment that
  trails the last \<open>#endif\<close> is dropped, as translation phase 3 does before directives are
  executed.
\<close>

definition cdbus_h :: "directive list" where
  "cdbus_h =
    [ Ifndef ''CDBUS_H'',
      Define ''CDBUS_H'',
      Blank,
      Comment ''Platform-specific includes for D-Bus'',
      If (Defined ''__APPLE__''),
      Comment ''On macOS, use the Homebrew installation with absolute paths'',
      Include (Quoted ''/opt/homebrew/opt/dbus/include/dbus-1.0/dbus/dbus.h''),
      Elif (Defined ''__linux__''),
      Comment ''On Linux, use the system headers'',
      Include (Angled ''dbus/dbus.h''),
      Else,
      Error ''Unsupported platform'',
      Endif,
      Blank,
      Endif ]"

subsection \<open>Preprocessing\<close>

text \<open>
  What preprocessing produces, in order: the files it was told to include, and the
  diagnostics that make the translation fail.
\<close>

datatype pp_error = UserError string | StrayDirective | Unterminated

datatype event = Included include_form | Failed pp_error

text \<open>
  The state of a translation unit: the macros defined so far and the events so far.
\<close>

record tu_state =
  macros :: "macro set"
  events :: "event list"

text \<open>
  One entry per open conditional section. \<open>Taken\<close>: the group being read is the chosen one.
  \<open>Pending\<close>: no group of the section has been chosen yet, the one being read is skipped.
  \<open>Done\<close>: a group was chosen earlier, or the whole section lies in skipped text; all
  that follows is skipped up to the matching \<open>#endif\<close>.
\<close>

datatype group = Taken | Pending | Done

fun active :: "group list \<Rightarrow> bool" where
  "active [] = True"
| "active (g # gs) = (g = Taken \<and> active gs)"

fun eval_cond :: "macro set \<Rightarrow> cond \<Rightarrow> bool" where
  "eval_cond M (Defined m) = (m \<in> M)"

definition emit :: "event \<Rightarrow> tu_state \<Rightarrow> tu_state" where
  "emit e st = st\<lparr>events := events st @ [e]\<rparr>"

text \<open>
  The files named by \<open>#include\<close> are not part of the repository (they belong to the D-Bus
  library). Reading one is recorded as an \<open>Included\<close> event, and its effect on the macros
  is the parameter \<open>ext\<close>.
\<close>

type_synonym ext = "include_form \<Rightarrow> macro set \<Rightarrow> macro set"

fun open_section :: "bool \<Rightarrow> group list \<Rightarrow> group list" where
  "open_section c gs =
     (if active gs then (if c then Taken else Pending) # gs else Done # gs)"

fun step :: "ext \<Rightarrow> directive \<Rightarrow> group list \<times> tu_state \<Rightarrow> group list \<times> tu_state" where
  "step ext (Ifndef m) (gs, st) = (open_section (m \<notin> macros st) gs, st)"
| "step ext (If c) (gs, st) = (open_section (eval_cond (macros st) c) gs, st)"
| "step ext (Elif c) (gs, st) =
     (case gs of
        [] \<Rightarrow> ([], emit (Failed StrayDirective) st)
      | Taken # gs' \<Rightarrow> (Done # gs', st)
      | Pending # gs' \<Rightarrow> ((if eval_cond (macros st) c then Taken else Pending) # gs', st)
      | Done # gs' \<Rightarrow> (Done # gs', st))"
| "step ext Else (gs, st) =
     (case gs of
        [] \<Rightarrow> ([], emit (Failed StrayDirective) st)
      | Taken # gs' \<Rightarrow> (Done # gs', st)
      | Pending # gs' \<Rightarrow> (Taken # gs', st)
      | Done # gs' \<Rightarrow> (Done # gs', st))"
| "step ext Endif (gs, st) =
     (case gs of
        [] \<Rightarrow> ([], emit (Failed StrayDirective) st)
      | g # gs' \<Rightarrow> (gs', st))"
| "step ext (Define m) (gs, st) =
     (if active gs then (gs, st\<lparr>macros := insert m (macros st)\<rparr>) else (gs, st))"
| "step ext (Include f) (gs, st) =
     (if active gs
      then (gs, emit (Included f) (st\<lparr>macros := ext f (macros st)\<rparr>))
      else (gs, st))"
| "step ext (Error msg) (gs, st) =
     (if active gs then (gs, emit (Failed (UserError msg)) st) else (gs, st))"
| "step ext (Comment c) (gs, st) = (gs, st)"
| "step ext Blank (gs, st) = (gs, st)"

fun run :: "ext \<Rightarrow> directive list \<Rightarrow> group list \<times> tu_state \<Rightarrow> group list \<times> tu_state" where
  "run ext [] cfg = cfg"
| "run ext (d # ds) cfg = run ext ds (step ext d cfg)"

text \<open>
  Reading a whole file: its conditional sections start closed and must be closed again at
  its end.
\<close>

definition include_file :: "ext \<Rightarrow> directive list \<Rightarrow> tu_state \<Rightarrow> tu_state" where
  "include_file ext ds st =
     (case run ext ds ([], st) of
        ([], st') \<Rightarrow> st'
      | (g # gs, st') \<Rightarrow> emit (Failed Unterminated) st')"

text \<open>\<open>#include "cdbus.h"\<close> at some point of a translation unit.\<close>

definition include_cdbus :: "ext \<Rightarrow> tu_state \<Rightarrow> tu_state" where
  "include_cdbus ext st = include_file ext cdbus_h st"

text \<open>A translation unit that is the header alone, started with the macros \<open>M\<close>.\<close>

definition preprocess_cdbus :: "ext \<Rightarrow> macro set \<Rightarrow> tu_state" where
  "preprocess_cdbus ext M = include_cdbus ext \<lparr>macros = M, events = []\<rparr>"

section \<open>Properties\<close>

subsection \<open>What one inclusion does\<close>

lemma include_cdbus_guarded:
  assumes "''CDBUS_H'' \<in> macros st"
  shows "include_cdbus ext st = st"
  using assms by (simp add: include_cdbus_def include_file_def cdbus_h_def)

lemma include_cdbus_apple:
  assumes "''CDBUS_H'' \<notin> macros st" and "''__APPLE__'' \<in> macros st"
  shows "include_cdbus ext st =
           st\<lparr>macros := ext (Quoted ''/opt/homebrew/opt/dbus/include/dbus-1.0/dbus/dbus.h'')
                           (insert ''CDBUS_H'' (macros st)),
              events := events st @
                 [Included (Quoted ''/opt/homebrew/opt/dbus/include/dbus-1.0/dbus/dbus.h'')]\<rparr>"
  using assms by (simp add: include_cdbus_def include_file_def cdbus_h_def emit_def)

lemma include_cdbus_linux:
  assumes "''CDBUS_H'' \<notin> macros st" and "''__APPLE__'' \<notin> macros st"
    and "''__linux__'' \<in> macros st"
  shows "include_cdbus ext st =
           st\<lparr>macros := ext (Angled ''dbus/dbus.h'') (insert ''CDBUS_H'' (macros st)),
              events := events st @ [Included (Angled ''dbus/dbus.h'')]\<rparr>"
  using assms by (simp add: include_cdbus_def include_file_def cdbus_h_def emit_def)

lemma include_cdbus_other:
  assumes "''CDBUS_H'' \<notin> macros st" and "''__APPLE__'' \<notin> macros st"
    and "''__linux__'' \<notin> macros st"
  shows "include_cdbus ext st =
           st\<lparr>macros := insert ''CDBUS_H'' (macros st),
              events := events st @ [Failed (UserError ''Unsupported platform'')]\<rparr>"
  using assms by (simp add: include_cdbus_def include_file_def cdbus_h_def emit_def)

text \<open>
  After one inclusion the guard macro is defined, provided the D-Bus header that was read
  did not undefine it.
\<close>

lemma include_cdbus_defines_guard:
  assumes keep: "\<And>f M. ''CDBUS_H'' \<in> M \<Longrightarrow> ''CDBUS_H'' \<in> ext f M"
  shows "''CDBUS_H'' \<in> macros (include_cdbus ext st)"
proof (cases "''CDBUS_H'' \<in> macros st")
  case True
  then show ?thesis by (simp add: include_cdbus_guarded)
next
  case guard: False
  show ?thesis
  proof (cases "''__APPLE__'' \<in> macros st")
    case True
    with guard show ?thesis by (simp add: include_cdbus_apple keep)
  next
    case apple: False
    show ?thesis
    proof (cases "''__linux__'' \<in> macros st")
      case True
      with guard apple show ?thesis by (simp add: include_cdbus_linux keep)
    next
      case False
      with guard apple show ?thesis by (simp add: include_cdbus_other)
    qed
  qed
qed

subsection \<open>Selection by platform\<close>

text \<open>
  C1. Preprocessing \<open>cdbus.h\<close> selects exactly one of three outcomes by platform. Read
  with its guard macro \<open>CDBUS_H\<close> not yet defined, the header produces exactly one event:
  when \<open>__APPLE__\<close> is defined, the inclusion of the absolute Homebrew path
  \<open>"/opt/homebrew/opt/dbus/include/dbus-1.0/dbus/dbus.h"\<close>; otherwise, when \<open>__linux__\<close>
  is defined, the inclusion of the system header \<open><dbus/dbus.h>\<close>; otherwise the
  compile-time error \<open>#error "Unsupported platform"\<close>. This holds whatever else is
  defined and whatever the included file does to the macros.
\<close>

theorem cdbus_h_selects_by_platform:
  assumes "''CDBUS_H'' \<notin> M"
  shows "events (preprocess_cdbus ext M) =
           [if ''__APPLE__'' \<in> M
            then Included (Quoted ''/opt/homebrew/opt/dbus/include/dbus-1.0/dbus/dbus.h'')
            else if ''__linux__'' \<in> M
            then Included (Angled ''dbus/dbus.h'')
            else Failed (UserError ''Unsupported platform'')]"
proof (cases "''__APPLE__'' \<in> M")
  case True
  with assms show ?thesis
    by (simp add: preprocess_cdbus_def include_cdbus_apple)
next
  case apple: False
  show ?thesis
  proof (cases "''__linux__'' \<in> M")
    case True
    with assms apple show ?thesis
      by (simp add: preprocess_cdbus_def include_cdbus_linux)
  next
    case False
    with assms apple show ?thesis
      by (simp add: preprocess_cdbus_def include_cdbus_other)
  qed
qed

text \<open>
  The theorem at three concrete platforms: macOS, Linux, and one that defines neither
  macro (here \<open>_WIN32\<close>). The included header is taken to define its own guard \<open>DBUS_H\<close>.
\<close>

theorem cdbus_h_selects_by_platform_witness:
  "''CDBUS_H'' \<notin> {''__APPLE__'', ''__MACH__''} \<and>
   events (preprocess_cdbus (\<lambda>f M. insert ''DBUS_H'' M) {''__APPLE__'', ''__MACH__''}) =
     [Included (Quoted ''/opt/homebrew/opt/dbus/include/dbus-1.0/dbus/dbus.h'')] \<and>
   ''CDBUS_H'' \<notin> {''__linux__''} \<and>
   events (preprocess_cdbus (\<lambda>f M. insert ''DBUS_H'' M) {''__linux__''}) =
     [Included (Angled ''dbus/dbus.h'')] \<and>
   ''CDBUS_H'' \<notin> {''_WIN32''} \<and>
   events (preprocess_cdbus (\<lambda>f M. insert ''DBUS_H'' M) {''_WIN32''}) =
     [Failed (UserError ''Unsupported platform'')]"
proof -
  let ?ext = "\<lambda>(f::include_form) (M::macro set). insert ''DBUS_H'' M"
  have a: "''CDBUS_H'' \<notin> {''__APPLE__'', ''__MACH__''}" by simp
  have l: "''CDBUS_H'' \<notin> {''__linux__''}" by simp
  have w: "''CDBUS_H'' \<notin> {''_WIN32''}" by simp
  show ?thesis
    using a l w
      cdbus_h_selects_by_platform [OF a, of ?ext]
      cdbus_h_selects_by_platform [OF l, of ?ext]
      cdbus_h_selects_by_platform [OF w, of ?ext]
    by simp
qed

text \<open>
  C10. If both \<open>__APPLE__\<close> and \<open>__linux__\<close> are defined, the Apple branch takes
  precedence: the header includes the absolute Homebrew path and not the system
  \<open><dbus/dbus.h>\<close> (the \<open>#elif\<close> is only tested when the \<open>#if\<close> before it failed).
\<close>

theorem apple_branch_takes_precedence:
  assumes "''__APPLE__'' \<in> M" and "''__linux__'' \<in> M" and "''CDBUS_H'' \<notin> M"
  shows "events (preprocess_cdbus ext M) =
           [Included (Quoted ''/opt/homebrew/opt/dbus/include/dbus-1.0/dbus/dbus.h'')] \<and>
         Included (Angled ''dbus/dbus.h'') \<notin> set (events (preprocess_cdbus ext M))"
  using assms by (simp add: preprocess_cdbus_def include_cdbus_apple)

theorem apple_branch_takes_precedence_witness:
  "''__APPLE__'' \<in> {''__APPLE__'', ''__linux__''} \<and>
   ''__linux__'' \<in> {''__APPLE__'', ''__linux__''} \<and>
   ''CDBUS_H'' \<notin> {''__APPLE__'', ''__linux__''} \<and>
   events (preprocess_cdbus (\<lambda>f M. M) {''__APPLE__'', ''__linux__''}) =
     [Included (Quoted ''/opt/homebrew/opt/dbus/include/dbus-1.0/dbus/dbus.h'')] \<and>
   Included (Angled ''dbus/dbus.h'')
     \<notin> set (events (preprocess_cdbus (\<lambda>f M. M) {''__APPLE__'', ''__linux__''}))"
proof -
  have a: "''__APPLE__'' \<in> {''__APPLE__'', ''__linux__''}" by simp
  have l: "''__linux__'' \<in> {''__APPLE__'', ''__linux__''}" by simp
  have g: "''CDBUS_H'' \<notin> {''__APPLE__'', ''__linux__''}" by simp
  show ?thesis
    using a l g apple_branch_takes_precedence [OF a l g, of "\<lambda>f M. M"]
    by simp
qed

subsection \<open>The include guard\<close>

text \<open>
  C9. Including \<open>cdbus.h\<close> more than once in a translation unit has the same effect as
  including it once: after the first inclusion \<open>CDBUS_H\<close> is defined, and every further
  inclusion leaves the macros and the events as they are. The D-Bus header that the first
  inclusion reads is assumed not to undefine \<open>CDBUS_H\<close>.
\<close>

theorem repeated_inclusion_same_as_once:
  assumes keep: "\<And>f M. ''CDBUS_H'' \<in> M \<Longrightarrow> ''CDBUS_H'' \<in> ext f M"
    and "0 < n"
  shows "(include_cdbus ext ^^ n) st = include_cdbus ext st"
  using \<open>0 < n\<close>
proof (induction n)
  case 0
  then show ?case by simp
next
  case (Suc n)
  show ?case
  proof (cases "n = 0")
    case True
    then show ?thesis by simp
  next
    case False
    with Suc.IH have "(include_cdbus ext ^^ n) st = include_cdbus ext st" by simp
    moreover have "include_cdbus ext (include_cdbus ext st) = include_cdbus ext st"
      by (rule include_cdbus_guarded) (rule include_cdbus_defines_guard [OF keep])
    ultimately show ?thesis by simp
  qed
qed

text \<open>
  The theorem on Linux, with three inclusions in a row and a D-Bus header that defines its
  own guard \<open>DBUS_H\<close>: the system header is included once.
\<close>

theorem repeated_inclusion_same_as_once_witness:
  "(include_cdbus (\<lambda>f M. insert ''DBUS_H'' M) ^^ 3) \<lparr>macros = {''__linux__''}, events = []\<rparr> =
     \<lparr>macros = {''DBUS_H'', ''CDBUS_H'', ''__linux__''},
      events = [Included (Angled ''dbus/dbus.h'')]\<rparr>"
proof -
  let ?ext = "\<lambda>(f::include_form) (M::macro set). insert ''DBUS_H'' M"
  let ?st = "\<lparr>macros = {''__linux__''}, events = []\<rparr>"
  have "(include_cdbus ?ext ^^ 3) ?st = include_cdbus ?ext ?st"
    by (rule repeated_inclusion_same_as_once) simp_all
  moreover have "include_cdbus ?ext ?st =
      \<lparr>macros = {''DBUS_H'', ''CDBUS_H'', ''__linux__''},
       events = [Included (Angled ''dbus/dbus.h'')]\<rparr>"
    by (simp add: include_cdbus_linux)
  ultimately show ?thesis by simp
qed

end
